theory Spec2Isabelle
  imports Complex_Main "HOL-Library.Word"
begin

section \<open>Python values, errors and the native plugin\<close>

text \<open>
  The module \<^verbatim>\<open>nvdiffrast/torch/ops.py\<close> is a thin Python layer over a compiled
  C++/Cuda plugin. The Python layer validates its arguments with \<^verbatim>\<open>assert\<close>,
  resolves string-valued modes through dictionaries, picks one of several
  \<^verbatim>\<open>torch.autograd.Function\<close> classes and delegates the numerical work to the
  plugin.

  A failed \<^verbatim>\<open>assert\<close> is the value \<open>AssertionError\<close>, a missing dictionary key
  is \<open>KeyError\<close> with the key, and whatever the plugin itself raises is passed through
  unchanged (the C++ side reports its failures as \<open>RuntimeError\<close>).
\<close>

datatype pyerror = AssertionError | KeyError string | RuntimeError string

text \<open>
  The Python class \<^verbatim>\<open>RasterizeGLContext\<close>: the two attributes fixed by the
  constructor and the native state wrapper it owns. \<open>'n\<close> is the type of native objects
  handed out by the plugin.
\<close>

record 'n RasterizeGLContext =
  output_db :: bool
  mode :: string
  cpp_wrapper :: 'n

text \<open>
  The Python objects that reach the functions of the module: \<^verbatim>\<open>None\<close>, the two
  booleans, a \<^verbatim>\<open>torch.Tensor\<close> (\<open>'t\<close> is the opaque type of tensors), an instance of
  one of the plugin's wrapper classes, a \<^verbatim>\<open>RasterizeGLContext\<close>, or an object of any
  other class (a list, a numpy array, ...). The \<^verbatim>\<open>isinstance\<close> tests of the source
  are tests on the constructor.
\<close>

datatype ('t, 'n) pyobj =
    PyNone
  | PyBool bool
  | PyTensor 't
  | TextureMipWrapper 'n
  | TopologyHashWrapper 'n
  | PyGLContext "'n RasterizeGLContext"
  | PyOther

fun is_Tensor :: "('t, 'n) pyobj \<Rightarrow> bool" where
  "is_Tensor (PyTensor t) = True"
| "is_Tensor _ = False"

fun is_TextureMipWrapper :: "('t, 'n) pyobj \<Rightarrow> bool" where
  "is_TextureMipWrapper (TextureMipWrapper m) = True"
| "is_TextureMipWrapper _ = False"

fun is_TopologyHashWrapper :: "('t, 'n) pyobj \<Rightarrow> bool" where
  "is_TopologyHashWrapper (TopologyHashWrapper h) = True"
| "is_TopologyHashWrapper _ = False"

text \<open>
  The entry points of the compiled plugin (the object returned by
  \<^verbatim>\<open>_get_plugin()\<close>) are not part of the Python source: they are parameters of the
  model. Each one is a function of its arguments that either raises or returns. The
  methods \<^verbatim>\<open>set_context\<close> and \<^verbatim>\<open>release_context\<close> of the native state wrapper
  change that wrapper, so they return its new state.
\<close>

record ('t, 'n) plugin =
  plugin_RasterizeGLStateWrapper :: "bool \<Rightarrow> bool \<Rightarrow> pyerror + 'n"
  plugin_set_context :: "'n \<Rightarrow> pyerror + 'n"
  plugin_release_context :: "'n \<Rightarrow> pyerror + 'n"
  plugin_rasterize_fwd ::
    "'n \<Rightarrow> ('t, 'n) pyobj \<Rightarrow> ('t, 'n) pyobj \<Rightarrow> int list \<Rightarrow> ('t, 'n) pyobj \<Rightarrow> pyerror + 't \<times> 't"
  plugin_rasterize_grad ::
    "('t, 'n) pyobj \<Rightarrow> ('t, 'n) pyobj \<Rightarrow> ('t, 'n) pyobj \<Rightarrow> ('t, 'n) pyobj \<Rightarrow> pyerror + 't"
  plugin_rasterize_grad_db ::
    "('t, 'n) pyobj \<Rightarrow> ('t, 'n) pyobj \<Rightarrow> ('t, 'n) pyobj \<Rightarrow> ('t, 'n) pyobj \<Rightarrow> ('t, 'n) pyobj
      \<Rightarrow> pyerror + 't"
  plugin_interpolate_fwd ::
    "('t, 'n) pyobj \<Rightarrow> ('t, 'n) pyobj \<Rightarrow> ('t, 'n) pyobj \<Rightarrow> pyerror + 't \<times> 't"
  plugin_interpolate_fwd_da ::
    "('t, 'n) pyobj \<Rightarrow> ('t, 'n) pyobj \<Rightarrow> ('t, 'n) pyobj \<Rightarrow> ('t, 'n) pyobj \<Rightarrow> int \<Rightarrow> int list
      \<Rightarrow> pyerror + 't \<times> 't"
  plugin_texture_construct_mip :: "('t, 'n) pyobj \<Rightarrow> int \<Rightarrow> bool \<Rightarrow> pyerror + 'n"
  plugin_texture_fwd ::
    "('t, 'n) pyobj \<Rightarrow> ('t, 'n) pyobj \<Rightarrow> int \<Rightarrow> int \<Rightarrow> pyerror + 't"
  plugin_texture_fwd_mip ::
    "('t, 'n) pyobj \<Rightarrow> ('t, 'n) pyobj \<Rightarrow> ('t, 'n) pyobj \<Rightarrow> ('t, 'n) pyobj \<Rightarrow> int \<Rightarrow> int
      \<Rightarrow> pyerror + 't"
  plugin_antialias_construct_topology_hash :: "('t, 'n) pyobj \<Rightarrow> pyerror + 'n"
  plugin_antialias_fwd ::
    "('t, 'n) pyobj \<Rightarrow> ('t, 'n) pyobj \<Rightarrow> ('t, 'n) pyobj \<Rightarrow> ('t, 'n) pyobj \<Rightarrow> ('t, 'n) pyobj
      \<Rightarrow> pyerror + 't \<times> 't"
  plugin_antialias_grad ::
    "('t, 'n) pyobj \<Rightarrow> ('t, 'n) pyobj \<Rightarrow> ('t, 'n) pyobj \<Rightarrow> ('t, 'n) pyobj \<Rightarrow> ('t, 'n) pyobj \<Rightarrow> 't
      \<Rightarrow> pyerror + 't \<times> 't"

text \<open>
  Every call into the plugin is an effect (GPU work, OpenGL state). The model records
  them: a computation returns the list of plugin calls it made, in order, together
  with its outcome.
\<close>

datatype ('t, 'n) plugin_call =
    Call_RasterizeGLStateWrapper bool bool
  | Call_set_context 'n
  | Call_release_context 'n
  | Call_rasterize_fwd 'n "('t, 'n) pyobj" "('t, 'n) pyobj" "int list" "('t, 'n) pyobj"
  | Call_rasterize_grad "('t, 'n) pyobj" "('t, 'n) pyobj" "('t, 'n) pyobj" "('t, 'n) pyobj"
  | Call_rasterize_grad_db "('t, 'n) pyobj" "('t, 'n) pyobj" "('t, 'n) pyobj" "('t, 'n) pyobj"
      "('t, 'n) pyobj"
  | Call_interpolate_fwd "('t, 'n) pyobj" "('t, 'n) pyobj" "('t, 'n) pyobj"
  | Call_interpolate_fwd_da "('t, 'n) pyobj" "('t, 'n) pyobj" "('t, 'n) pyobj" "('t, 'n) pyobj"
      int "int list"
  | Call_texture_construct_mip "('t, 'n) pyobj" int bool
  | Call_texture_fwd "('t, 'n) pyobj" "('t, 'n) pyobj" int int
  | Call_texture_fwd_mip "('t, 'n) pyobj" "('t, 'n) pyobj" "('t, 'n) pyobj" "('t, 'n) pyobj"
      int int
  | Call_antialias_construct_topology_hash "('t, 'n) pyobj"
  | Call_antialias_fwd "('t, 'n) pyobj" "('t, 'n) pyobj" "('t, 'n) pyobj" "('t, 'n) pyobj"
      "('t, 'n) pyobj"
  | Call_antialias_grad "('t, 'n) pyobj" "('t, 'n) pyobj" "('t, 'n) pyobj" "('t, 'n) pyobj"
      "('t, 'n) pyobj" 't

type_synonym ('t, 'n, 'a) run = "('t, 'n) plugin_call list \<times> (pyerror + 'a)"

definition done_with :: "'a \<Rightarrow> ('t, 'n, 'a) run" where
  "done_with a = ([], Inr a)"

definition raise :: "pyerror \<Rightarrow> ('t, 'n, 'a) run" where
  "raise e = ([], Inl e)"

definition invoke :: "('t, 'n) plugin_call \<Rightarrow> pyerror + 'a \<Rightarrow> ('t, 'n, 'a) run" where
  "invoke c r = ([c], r)"

definition and_then :: "('t, 'n, 'a) run \<Rightarrow> ('a \<Rightarrow> ('t, 'n, 'b) run) \<Rightarrow> ('t, 'n, 'b) run" where
  "and_then m f =
     (case m of
        (cs, Inl e) \<Rightarrow> (cs, Inl e)
      | (cs, Inr a) \<Rightarrow> (case f a of (cs', r) \<Rightarrow> (cs @ cs', r)))"

text \<open>Python's \<^verbatim>\<open>needle in haystack\<close> on strings: a contiguous occurrence.\<close>

fun str_in :: "string \<Rightarrow> string \<Rightarrow> bool" where
  "str_in s [] = (s = [])"
| "str_in s (c # cs) = (take (length s) (c # cs) = s \<or> str_in s cs)"

section \<open>Texture\<close>

text \<open>
  What \<^verbatim>\<open>forward\<close> of the two texture \<^verbatim>\<open>autograd.Function\<close> classes leaves in
  \<^verbatim>\<open>ctx\<close> for the backward pass: the saved tensors and \<^verbatim>\<open>saved_misc\<close>.
\<close>

record ('t, 'n) texture_mip_ctx =
  mip_saved_tex :: "('t, 'n) pyobj"
  mip_saved_uv :: "('t, 'n) pyobj"
  mip_saved_uv_da :: "('t, 'n) pyobj"
  mip_saved_filter_mode :: string
  mip_saved_mip :: "('t, 'n) pyobj"
  mip_saved_filter_mode_enum :: int
  mip_saved_boundary_mode_enum :: int

record ('t, 'n) texture_ctx =
  saved_tex :: "('t, 'n) pyobj"
  saved_uv :: "('t, 'n) pyobj"
  saved_filter_mode :: string
  saved_filter_mode_enum :: int
  saved_boundary_mode_enum :: int

text \<open>
  The value of \<^verbatim>\<open>texture\<close>: the output tensor, tagged with the
  \<^verbatim>\<open>autograd.Function\<close> class that produced it and the context that class saved
  (the host's tape keeps both for the backward pass).
\<close>

datatype ('t, 'n) texture_node =
    Texture_func_mip "('t, 'n) texture_mip_ctx" 't
  | Texture_func "('t, 'n) texture_ctx" 't

definition texture_func_mip_forward ::
  "('t, 'n) plugin \<Rightarrow> string \<Rightarrow> ('t, 'n) pyobj \<Rightarrow> ('t, 'n) pyobj \<Rightarrow> ('t, 'n) pyobj \<Rightarrow> ('t, 'n) pyobj
    \<Rightarrow> int \<Rightarrow> int \<Rightarrow> ('t, 'n, ('t, 'n) texture_node) run" where
  "texture_func_mip_forward P filter_mode tex uv uv_da mip filter_mode_enum boundary_mode_enum =
     and_then
       (invoke (Call_texture_fwd_mip tex uv uv_da mip filter_mode_enum boundary_mode_enum)
          (plugin_texture_fwd_mip P tex uv uv_da mip filter_mode_enum boundary_mode_enum))
       (\<lambda>out. done_with (Texture_func_mip
          \<lparr>mip_saved_tex = tex, mip_saved_uv = uv, mip_saved_uv_da = uv_da,
           mip_saved_filter_mode = filter_mode, mip_saved_mip = mip,
           mip_saved_filter_mode_enum = filter_mode_enum,
           mip_saved_boundary_mode_enum = boundary_mode_enum\<rparr> out))"

definition texture_func_forward ::
  "('t, 'n) plugin \<Rightarrow> string \<Rightarrow> ('t, 'n) pyobj \<Rightarrow> ('t, 'n) pyobj \<Rightarrow> int \<Rightarrow> int
    \<Rightarrow> ('t, 'n, ('t, 'n) texture_node) run" where
  "texture_func_forward P filter_mode tex uv filter_mode_enum boundary_mode_enum =
     and_then
       (invoke (Call_texture_fwd tex uv filter_mode_enum boundary_mode_enum)
          (plugin_texture_fwd P tex uv filter_mode_enum boundary_mode_enum))
       (\<lambda>out. done_with (Texture_func
          \<lparr>saved_tex = tex, saved_uv = uv, saved_filter_mode = filter_mode,
           saved_filter_mode_enum = filter_mode_enum,
           saved_boundary_mode_enum = boundary_mode_enum\<rparr> out))"

definition filter_mode_dict :: "(string \<times> int) list" where
  "filter_mode_dict =
     [(''nearest'', 0), (''linear'', 1), (''linear-mipmap-nearest'', 2),
      (''linear-mipmap-linear'', 3)]"

definition boundary_mode_dict :: "(string \<times> int) list" where
  "boundary_mode_dict = [(''cube'', 0), (''wrap'', 1), (''clamp'', 2), (''zero'', 3)]"

text \<open>
  \<^verbatim>\<open>max_mip_level\<close> after \<^verbatim>\<open>int(...)\<close> is an integer or was \<^verbatim>\<open>None\<close>. The steps of
  \<^verbatim>\<open>texture\<close> follow the source in its order: default filter mode, sanitising
  \<^verbatim>\<open>max_mip_level\<close>, the input checks, the degradation for level 0, the two
  dictionary lookups, the mipmap stack, the choice of the stub.
\<close>

definition texture ::
  "('t, 'n) plugin \<Rightarrow> ('t, 'n) pyobj \<Rightarrow> ('t, 'n) pyobj \<Rightarrow> ('t, 'n) pyobj \<Rightarrow> ('t, 'n) pyobj
    \<Rightarrow> string \<Rightarrow> string \<Rightarrow> int option \<Rightarrow> ('t, 'n, ('t, 'n) texture_node) run" where
  "texture P tex uv uv_da mip filter_mode0 boundary_mode max_mip_level0 =
     (let filter_mode1 =
            (if filter_mode0 = ''auto''
             then (if uv_da \<noteq> PyNone then ''linear-mipmap-linear'' else ''linear'')
             else filter_mode0);
          max_mip_level = (case max_mip_level0 of None \<Rightarrow> - 1 | Some k \<Rightarrow> k)
      in
      if max_mip_level0 \<noteq> None \<and> \<not> max_mip_level \<ge> 0 then raise AssertionError
      else if \<not> (is_Tensor tex \<and> is_Tensor uv) then raise AssertionError
      else if str_in ''mipmap'' filter_mode1 \<and> \<not> is_Tensor uv_da then raise AssertionError
      else
        let filter_mode =
              (if max_mip_level = 0
                  \<and> filter_mode1 \<in> set [''linear-mipmap-nearest'', ''linear-mipmap-linear'']
               then ''linear'' else filter_mode1)
        in
        case map_of filter_mode_dict filter_mode of
          None \<Rightarrow> raise (KeyError filter_mode)
        | Some filter_mode_enum \<Rightarrow>
        (case map_of boundary_mode_dict boundary_mode of
          None \<Rightarrow> raise (KeyError boundary_mode)
        | Some boundary_mode_enum \<Rightarrow>
        and_then
          (if str_in ''mipmap'' filter_mode then
             (if mip \<noteq> PyNone then
                (if is_TextureMipWrapper mip then done_with mip else raise AssertionError)
              else
                and_then
                  (invoke
                     (Call_texture_construct_mip tex max_mip_level (boundary_mode = ''cube''))
                     (plugin_texture_construct_mip P tex max_mip_level
                        (boundary_mode = ''cube'')))
                  (\<lambda>m. done_with (TextureMipWrapper m)))
           else done_with mip)
          (\<lambda>mip.
             if filter_mode = ''linear-mipmap-linear'' \<or> filter_mode = ''linear-mipmap-nearest''
             then texture_func_mip_forward P filter_mode tex uv uv_da mip
                    filter_mode_enum boundary_mode_enum
             else texture_func_forward P filter_mode tex uv
                    filter_mode_enum boundary_mode_enum)))"

text \<open>The wrapper \<^verbatim>\<open>texture_construct_mip\<close> of the module.\<close>

definition texture_construct_mip ::
  "('t, 'n) plugin \<Rightarrow> ('t, 'n) pyobj \<Rightarrow> int option \<Rightarrow> ('t, 'n) pyobj
    \<Rightarrow> ('t, 'n, ('t, 'n) pyobj) run" where
  "texture_construct_mip P tex max_mip_level0 cube_mode =
     (if \<not> is_Tensor tex then raise AssertionError
      else case cube_mode of
        PyBool cube \<Rightarrow>
          (let max_mip_level = (case max_mip_level0 of None \<Rightarrow> - 1 | Some k \<Rightarrow> k)
           in if max_mip_level0 \<noteq> None \<and> \<not> max_mip_level \<ge> 0 then raise AssertionError
              else and_then
                     (invoke (Call_texture_construct_mip tex max_mip_level cube)
                        (plugin_texture_construct_mip P tex max_mip_level cube))
                     (\<lambda>m. done_with (TextureMipWrapper m)))
      | _ \<Rightarrow> raise AssertionError)"

section \<open>The OpenGL context\<close>




section \<open>Rasterize\<close>

text \<open>
  The two operations of the tensor library that the module uses besides the plugin:
  \<^verbatim>\<open>torch.empty(size=(0, 2), dtype=torch.int32, device='cpu')\<close> and the product of a
  tensor with a Python float. A Python float is read as the real number it denotes.
\<close>

record 't torch =
  torch_empty_ranges :: 't
  torch_mul :: "'t \<Rightarrow> real \<Rightarrow> 't"

record ('t, 'n) rasterize_ctx =
  saved_pos :: "('t, 'n) pyobj"
  saved_tri :: "('t, 'n) pyobj"
  saved_out :: 't
  saved_grad_db :: bool


text \<open>
  \<^verbatim>\<open>backward\<close> returns one entry per argument of \<^verbatim>\<open>forward\<close>, in the order
  \<^verbatim>\<open>glctx, pos, tri, resolution, ranges, grad_db\<close>; an entry is \<^verbatim>\<open>None\<close> or a
  gradient tensor.
\<close>

definition rasterize_func_backward ::
  "('t, 'n) plugin \<Rightarrow> ('t, 'n) rasterize_ctx \<Rightarrow> ('t, 'n) pyobj \<Rightarrow> ('t, 'n) pyobj
    \<Rightarrow> ('t, 'n, 't option list) run" where
  "rasterize_func_backward P ctx dy ddb =
     (let pos = saved_pos ctx; tri = saved_tri ctx; out = PyTensor (saved_out ctx) in
      and_then
        (if saved_grad_db ctx
         then invoke (Call_rasterize_grad_db pos tri out dy ddb)
                (plugin_rasterize_grad_db P pos tri out dy ddb)
         else invoke (Call_rasterize_grad pos tri out dy)
                (plugin_rasterize_grad P pos tri out dy))
        (\<lambda>g_pos. done_with [None, Some g_pos, None, None, None, None]))"


section \<open>Interpolate\<close>

text \<open>
  The argument \<^verbatim>\<open>diff_attrs\<close>: \<^verbatim>\<open>None\<close>, the string \<^verbatim>\<open>'all'\<close>, a Python list of
  attribute indices, or a Python object that \<^verbatim>\<open>np.asarray\<close> does not turn into a
  one-dimensional array (a single integer, a nested list).

  The list is converted by \<^verbatim>\<open>np.asarray(diff_attrs, np.int32)\<close>, so its elements are
  32-bit signed integers: a list is given by the \<^verbatim>\<open>np.int32\<close> values of its indices.
  A list with an index that does not fit \<^verbatim>\<open>np.int32\<close> is not a value of this type (the
  conversion raises or wraps there, depending on the version of numpy), and neither is
  an \<^verbatim>\<open>ndarray\<close> or a string other than \<^verbatim>\<open>'all'\<close>.
\<close>

datatype diff_attrs_arg = DiffNone | DiffAll | DiffSeq "32 word list" | DiffNotFlat

text \<open>
  The value of \<^verbatim>\<open>diff_attrs\<close> after sanitising: \<^verbatim>\<open>'all'\<close> or the Python list of
  integers that \<^verbatim>\<open>tolist()\<close> returns.
\<close>

datatype diff_attrs_val = All | Indices "int list"

fun truthy :: "diff_attrs_val \<Rightarrow> bool" where
  "truthy All = True"
| "truthy (Indices xs) = (xs \<noteq> [])"

record ('t, 'n) interpolate_da_ctx =
  da_saved_attr :: "('t, 'n) pyobj"
  da_saved_rast :: "('t, 'n) pyobj"
  da_saved_tri :: "('t, 'n) pyobj"
  da_saved_rast_db :: "('t, 'n) pyobj"
  da_saved_diff_attrs_all :: int
  da_saved_diff_attrs_list :: "int list"

record ('t, 'n) interpolate_ctx =
  saved_attr :: "('t, 'n) pyobj"
  saved_rast :: "('t, 'n) pyobj"
  saved_attr_tri :: "('t, 'n) pyobj"

datatype ('t, 'n) interpolate_node =
    Interpolate_func_da "('t, 'n) interpolate_da_ctx" 't 't
  | Interpolate_func "('t, 'n) interpolate_ctx" 't 't

definition interpolate_func_da_forward ::
  "('t, 'n) plugin \<Rightarrow> ('t, 'n) pyobj \<Rightarrow> ('t, 'n) pyobj \<Rightarrow> ('t, 'n) pyobj \<Rightarrow> ('t, 'n) pyobj
    \<Rightarrow> int \<Rightarrow> int list \<Rightarrow> ('t, 'n, ('t, 'n) interpolate_node) run" where
  "interpolate_func_da_forward P attr rast tri rast_db diff_attrs_all diff_attrs_list =
     and_then
       (invoke (Call_interpolate_fwd_da attr rast tri rast_db diff_attrs_all diff_attrs_list)
          (plugin_interpolate_fwd_da P attr rast tri rast_db diff_attrs_all diff_attrs_list))
       (\<lambda>(out, out_da).
          done_with (Interpolate_func_da
            \<lparr>da_saved_attr = attr, da_saved_rast = rast, da_saved_tri = tri,
             da_saved_rast_db = rast_db, da_saved_diff_attrs_all = diff_attrs_all,
             da_saved_diff_attrs_list = diff_attrs_list\<rparr> out out_da))"

definition interpolate_func_forward ::
  "('t, 'n) plugin \<Rightarrow> ('t, 'n) pyobj \<Rightarrow> ('t, 'n) pyobj \<Rightarrow> ('t, 'n) pyobj
    \<Rightarrow> ('t, 'n, ('t, 'n) interpolate_node) run" where
  "interpolate_func_forward P attr rast tri =
     and_then
       (invoke (Call_interpolate_fwd attr rast tri) (plugin_interpolate_fwd P attr rast tri))
       (\<lambda>(out, out_da).
          done_with (Interpolate_func
            \<lparr>saved_attr = attr, saved_rast = rast, saved_attr_tri = tri\<rparr> out out_da))"

definition interpolate ::
  "('t, 'n) plugin \<Rightarrow> ('t, 'n) pyobj \<Rightarrow> ('t, 'n) pyobj \<Rightarrow> ('t, 'n) pyobj \<Rightarrow> ('t, 'n) pyobj
    \<Rightarrow> diff_attrs_arg \<Rightarrow> ('t, 'n, ('t, 'n) interpolate_node) run" where
  "interpolate P attr rast tri rast_db diff_attrs0 =
     (case (case diff_attrs0 of
              DiffNone \<Rightarrow> Inr (Indices [])
            | DiffAll \<Rightarrow> Inr All
            | DiffSeq ws \<Rightarrow> Inr (Indices (map sint ws))
            | DiffNotFlat \<Rightarrow> Inl AssertionError) of
        Inl e \<Rightarrow> raise e
      | Inr diff_attrs \<Rightarrow>
          (let diff_attrs_all = (if diff_attrs = All then 1 else 0);
               diff_attrs_list =
                 (if diff_attrs_all \<noteq> 0 then []
                  else (case diff_attrs of Indices xs \<Rightarrow> xs | All \<Rightarrow> []))
           in
           if \<not> (is_Tensor attr \<and> is_Tensor rast \<and> is_Tensor tri) then raise AssertionError
           else if truthy diff_attrs \<and> \<not> is_Tensor rast_db then raise AssertionError
           else if truthy diff_attrs
           then interpolate_func_da_forward P attr rast tri rast_db diff_attrs_all diff_attrs_list
           else interpolate_func_forward P attr rast tri))"

section \<open>Antialias\<close>

record ('t, 'n) antialias_ctx =
  saved_color :: "('t, 'n) pyobj"
  saved_aa_rast :: "('t, 'n) pyobj"
  saved_aa_pos :: "('t, 'n) pyobj"
  saved_aa_tri :: "('t, 'n) pyobj"
  saved_pos_gradient_boost :: real
  saved_work_buffer :: 't

definition antialias_func_forward ::
  "('t, 'n) plugin \<Rightarrow> ('t, 'n) pyobj \<Rightarrow> ('t, 'n) pyobj \<Rightarrow> ('t, 'n) pyobj \<Rightarrow> ('t, 'n) pyobj
    \<Rightarrow> ('t, 'n) pyobj \<Rightarrow> real \<Rightarrow> ('t, 'n, ('t, 'n) antialias_ctx \<times> 't) run" where
  "antialias_func_forward P color rast pos tri topology_hash pos_gradient_boost =
     and_then
       (invoke (Call_antialias_fwd color rast pos tri topology_hash)
          (plugin_antialias_fwd P color rast pos tri topology_hash))
       (\<lambda>(out, work_buffer).
          done_with
            (\<lparr>saved_color = color, saved_aa_rast = rast, saved_aa_pos = pos,
              saved_aa_tri = tri, saved_pos_gradient_boost = pos_gradient_boost,
              saved_work_buffer = work_buffer\<rparr>, out))"

text \<open>
  \<^verbatim>\<open>backward\<close> returns one entry per argument of \<^verbatim>\<open>forward\<close>, in the order
  \<^verbatim>\<open>color, rast, pos, tri, topology_hash, pos_gradient_boost\<close>.
\<close>

definition antialias_func_backward ::
  "('t, 'n) plugin \<Rightarrow> 't torch \<Rightarrow> ('t, 'n) antialias_ctx \<Rightarrow> ('t, 'n) pyobj
    \<Rightarrow> ('t, 'n, 't option list) run" where
  "antialias_func_backward P T ctx dy =
     (let color = saved_color ctx; rast = saved_aa_rast ctx; pos = saved_aa_pos ctx;
          tri = saved_aa_tri ctx;
          pos_gradient_boost = saved_pos_gradient_boost ctx;
          work_buffer = saved_work_buffer ctx
      in
      and_then
        (invoke (Call_antialias_grad color rast pos tri dy work_buffer)
           (plugin_antialias_grad P color rast pos tri dy work_buffer))
        (\<lambda>(g_color, g_pos0).
           let g_pos = (if pos_gradient_boost \<noteq> 1 then torch_mul T g_pos0 pos_gradient_boost
                        else g_pos0)
           in done_with [Some g_color, None, Some g_pos, None, None, None]))"

definition antialias ::
  "('t, 'n) plugin \<Rightarrow> ('t, 'n) pyobj \<Rightarrow> ('t, 'n) pyobj \<Rightarrow> ('t, 'n) pyobj \<Rightarrow> ('t, 'n) pyobj
    \<Rightarrow> ('t, 'n) pyobj \<Rightarrow> real \<Rightarrow> ('t, 'n, ('t, 'n) antialias_ctx \<times> 't) run" where
  "antialias P color rast pos tri topology_hash0 pos_gradient_boost =
     (if \<not> (is_Tensor color \<and> is_Tensor rast \<and> is_Tensor pos \<and> is_Tensor tri)
      then raise AssertionError
      else
        and_then
          (if topology_hash0 \<noteq> PyNone then
             (if is_TopologyHashWrapper topology_hash0 then done_with topology_hash0
              else raise AssertionError)
           else
             and_then
               (invoke (Call_antialias_construct_topology_hash tri)
                  (plugin_antialias_construct_topology_hash P tri))
               (\<lambda>h. done_with (TopologyHashWrapper h)))
          (\<lambda>topology_hash.
             antialias_func_forward P color rast pos tri topology_hash pos_gradient_boost))"


section \<open>A concrete plugin for examples\<close>

text \<open>
  A stand-in for the plugin on which the functions of the module can be run: a tensor is
  a single real number, a native object is a natural number. The mipmap stack built for
  level limit \<open>l\<close> is the number \<open>l + 1\<close>, plus \<open>100\<close> in cube mode; the other entry points
  return fixed values. The native state wrapper is \<open>0\<close> in automatic mode; in manual mode
  it is \<open>1\<close> while unbound and \<open>2\<close> while bound, and binding twice or releasing an unbound
  context is an error of the plugin.
\<close>

definition demo_plugin :: "(real, nat) plugin" where
  "demo_plugin =
     \<lparr>plugin_RasterizeGLStateWrapper = (\<lambda>db auto. Inr (if auto then 0 else 1)),
      plugin_set_context =
        (\<lambda>w. if w = 1 then Inr 2 else Inl (RuntimeError ''context already bound'')),
      plugin_release_context =
        (\<lambda>w. if w = 2 then Inr 1 else Inl (RuntimeError ''no context bound'')),
      plugin_rasterize_fwd = (\<lambda>w pos tri resolution ranges. Inr (7, 8)),
      plugin_rasterize_grad = (\<lambda>pos tri out dy. Inr 9),
      plugin_rasterize_grad_db = (\<lambda>pos tri out dy ddb. Inr 10),
      plugin_interpolate_fwd = (\<lambda>attr rast tri. Inr (11, 12)),
      plugin_interpolate_fwd_da = (\<lambda>attr rast tri rast_db a l. Inr (13, 14)),
      plugin_texture_construct_mip =
        (\<lambda>tex l cube. Inr (nat (l + 1) + (if cube then 100 else 0))),
      plugin_texture_fwd = (\<lambda>tex uv f b. Inr 21),
      plugin_texture_fwd_mip = (\<lambda>tex uv uv_da mip f b. Inr 22),
      plugin_antialias_construct_topology_hash = (\<lambda>tri. Inr 30),
      plugin_antialias_fwd = (\<lambda>color rast pos tri h. Inr (31, 32)),
      plugin_antialias_grad = (\<lambda>color rast pos tri dy wb. Inr (33, 34))\<rparr>"

definition demo_torch :: "real torch" where
  "demo_torch = \<lparr>torch_empty_ranges = 0, torch_mul = (\<lambda>t r. t * r)\<rparr>"

section \<open>Properties of texture\<close>

lemmas run_defs = done_with_def raise_def invoke_def and_then_def

lemma str_in_mipmap:
  "str_in ''mipmap'' ''linear-mipmap-linear''"
  "str_in ''mipmap'' ''linear-mipmap-nearest''"
  "\<not> str_in ''mipmap'' ''linear''"
  "\<not> str_in ''mipmap'' ''nearest''"
  by simp_all

lemma filter_mode_dict_lookup:
  "map_of filter_mode_dict ''nearest'' = Some 0"
  "map_of filter_mode_dict ''linear'' = Some 1"
  "map_of filter_mode_dict ''linear-mipmap-nearest'' = Some 2"
  "map_of filter_mode_dict ''linear-mipmap-linear'' = Some 3"
  by (simp_all add: filter_mode_dict_def)

lemma boundary_mode_dict_lookup:
  "map_of boundary_mode_dict ''cube'' = Some 0"
  "map_of boundary_mode_dict ''wrap'' = Some 1"
  "map_of boundary_mode_dict ''clamp'' = Some 2"
  "map_of boundary_mode_dict ''zero'' = Some 3"
  by (simp_all add: boundary_mode_dict_def)

text \<open>
  The body of \<^verbatim>\<open>texture\<close> with names for the three values it computes on the way: the
  filter mode after \<^verbatim>\<open>'auto'\<close> is resolved, the sanitised level limit, and the filter
  mode after the degradation for level limit 0.
\<close>

lemma texture_unfold:
  assumes "fm1 = (if fm0 = ''auto''
                  then (if uv_da \<noteq> PyNone then ''linear-mipmap-linear'' else ''linear'')
                  else fm0)"
    and "l = (case mml0 of None \<Rightarrow> - 1 | Some k \<Rightarrow> k)"
    and "fm2 = (if l = 0 \<and> fm1 \<in> set [''linear-mipmap-nearest'', ''linear-mipmap-linear'']
                then ''linear'' else fm1)"
  shows "texture P tex uv uv_da mip fm0 bm mml0 =
     (if mml0 \<noteq> None \<and> \<not> l \<ge> 0 then raise AssertionError
      else if \<not> (is_Tensor tex \<and> is_Tensor uv) then raise AssertionError
      else if str_in ''mipmap'' fm1 \<and> \<not> is_Tensor uv_da then raise AssertionError
      else
        case map_of filter_mode_dict fm2 of
          None \<Rightarrow> raise (KeyError fm2)
        | Some filter_mode_enum \<Rightarrow>
        (case map_of boundary_mode_dict bm of
          None \<Rightarrow> raise (KeyError bm)
        | Some boundary_mode_enum \<Rightarrow>
        and_then
          (if str_in ''mipmap'' fm2 then
             (if mip \<noteq> PyNone then
                (if is_TextureMipWrapper mip then done_with mip else raise AssertionError)
              else
                and_then
                  (invoke
                     (Call_texture_construct_mip tex l (bm = ''cube''))
                     (plugin_texture_construct_mip P tex l (bm = ''cube'')))
                  (\<lambda>m. done_with (TextureMipWrapper m)))
           else done_with mip)
          (\<lambda>mip.
             if fm2 = ''linear-mipmap-linear'' \<or> fm2 = ''linear-mipmap-nearest''
             then texture_func_mip_forward P fm2 tex uv uv_da mip
                    filter_mode_enum boundary_mode_enum
             else texture_func_forward P fm2 tex uv
                    filter_mode_enum boundary_mode_enum)))"
  unfolding texture_def Let_def assms by (rule refl)

text \<open>Runs of \<^verbatim>\<open>texture\<close> on the concrete plugin, with and without derivatives.\<close>

lemma texture_example_mip:
  "texture demo_plugin (PyTensor 1) (PyTensor 2) (PyTensor 3) PyNone ''auto'' ''wrap'' None
   = ([Call_texture_construct_mip (PyTensor 1) (- 1) False,
       Call_texture_fwd_mip (PyTensor 1) (PyTensor 2) (PyTensor 3) (TextureMipWrapper 0) 3 1],
      Inr (Texture_func_mip
        \<lparr>mip_saved_tex = PyTensor 1, mip_saved_uv = PyTensor 2, mip_saved_uv_da = PyTensor 3,
         mip_saved_filter_mode = ''linear-mipmap-linear'', mip_saved_mip = TextureMipWrapper 0,
         mip_saved_filter_mode_enum = 3, mip_saved_boundary_mode_enum = 1\<rparr> 22))"
  by (simp add: texture_def demo_plugin_def run_defs filter_mode_dict_def boundary_mode_dict_def
        texture_func_mip_forward_def)

lemma texture_example_linear:
  "texture demo_plugin (PyTensor 1) (PyTensor 2) PyNone PyNone ''auto'' ''wrap'' None
   = ([Call_texture_fwd (PyTensor 1) (PyTensor 2) 1 1],
      Inr (Texture_func
        \<lparr>saved_tex = PyTensor 1, saved_uv = PyTensor 2, saved_filter_mode = ''linear'',
         saved_filter_mode_enum = 1, saved_boundary_mode_enum = 1\<rparr> 21))"
  by (simp add: texture_def demo_plugin_def run_defs filter_mode_dict_def boundary_mode_dict_def
        texture_func_forward_def)

lemma texture_example_level_zero:
  "texture demo_plugin (PyTensor 1) (PyTensor 2) (PyTensor 3) PyNone ''linear-mipmap-nearest''
     ''clamp'' (Some 0)
   = ([Call_texture_fwd (PyTensor 1) (PyTensor 2) 1 2],
      Inr (Texture_func
        \<lparr>saved_tex = PyTensor 1, saved_uv = PyTensor 2, saved_filter_mode = ''linear'',
         saved_filter_mode_enum = 1, saved_boundary_mode_enum = 2\<rparr> 21))"
  by (simp add: texture_def demo_plugin_def run_defs filter_mode_dict_def boundary_mode_dict_def
        texture_func_forward_def)

text \<open>
  Claim C1. A call of \<^verbatim>\<open>texture\<close> with \<^verbatim>\<open>filter_mode='auto'\<close> is the same call with
  \<^verbatim>\<open>filter_mode='linear'\<close> when \<^verbatim>\<open>uv_da\<close> is \<^verbatim>\<open>None\<close>, and the same call with
  \<^verbatim>\<open>filter_mode='linear-mipmap-linear'\<close> when \<^verbatim>\<open>uv_da\<close> is supplied: the plugin calls
  made, the exception raised or the value returned, and the context saved for the
  backward pass all agree.
\<close>

theorem texture_auto_filter_mode:
  "texture P tex uv PyNone mip ''auto'' boundary_mode max_mip_level
     = texture P tex uv PyNone mip ''linear'' boundary_mode max_mip_level
   \<and> (uv_da \<noteq> PyNone \<longrightarrow>
        texture P tex uv uv_da mip ''auto'' boundary_mode max_mip_level
        = texture P tex uv uv_da mip ''linear-mipmap-linear'' boundary_mode max_mip_level)"
  by (simp add: texture_def)

theorem texture_auto_filter_mode_witness:
  "(PyTensor 3 :: (real, nat) pyobj) \<noteq> PyNone
   \<and> texture demo_plugin (PyTensor 1) (PyTensor 2) PyNone PyNone ''auto'' ''wrap'' None
     = texture demo_plugin (PyTensor 1) (PyTensor 2) PyNone PyNone ''linear'' ''wrap'' None
   \<and> texture demo_plugin (PyTensor 1) (PyTensor 2) (PyTensor 3) PyNone ''auto'' ''wrap'' None
     = texture demo_plugin (PyTensor 1) (PyTensor 2) (PyTensor 3) PyNone ''linear-mipmap-linear''
         ''wrap'' None"
  using texture_auto_filter_mode
    [of demo_plugin "PyTensor 1" "PyTensor 2" PyNone "''wrap''" None "PyTensor 3"]
  by simp

text \<open>
  Claim C2, as stated, fails: with \<^verbatim>\<open>max_mip_level=0\<close> and a mipmap filter mode, a call
  without \<^verbatim>\<open>uv_da\<close> is not executed as \<^verbatim>\<open>'linear'\<close>. The check that \<^verbatim>\<open>uv_da\<close> is a
  tensor comes before the degradation, so the call raises \<^verbatim>\<open>AssertionError\<close>, where the
  same call with \<^verbatim>\<open>filter_mode='linear'\<close> samples the texture.
\<close>

theorem texture_level_zero_counterexample:
  "texture demo_plugin (PyTensor 1) (PyTensor 2) PyNone PyNone ''linear-mipmap-linear''
     ''wrap'' (Some 0)
   = ([], Inl AssertionError)
   \<and> texture demo_plugin (PyTensor 1) (PyTensor 2) PyNone PyNone ''linear'' ''wrap'' (Some 0)
   = ([Call_texture_fwd (PyTensor 1) (PyTensor 2) 1 1],
      Inr (Texture_func
        \<lparr>saved_tex = PyTensor 1, saved_uv = PyTensor 2, saved_filter_mode = ''linear'',
         saved_filter_mode_enum = 1, saved_boundary_mode_enum = 1\<rparr> 21))"
  by (simp add: texture_def demo_plugin_def run_defs filter_mode_dict_def boundary_mode_dict_def
        texture_func_forward_def)

lemma texture_linear_level_zero:
  "texture P tex uv uv_da mip ''linear'' bm (Some 0) =
     (if is_Tensor tex \<and> is_Tensor uv then
        (case map_of boundary_mode_dict bm of
           None \<Rightarrow> raise (KeyError bm)
         | Some boundary_mode_enum \<Rightarrow>
             texture_func_forward P ''linear'' tex uv 1 boundary_mode_enum)
      else raise AssertionError)"
  unfolding texture_def Let_def
  by (simp add: str_in_mipmap filter_mode_dict_lookup run_defs texture_func_forward_def
        split: option.splits sum.splits)

lemma texture_lml_level_zero:
  "is_Tensor uv_da \<Longrightarrow>
   texture P tex uv uv_da mip ''linear-mipmap-linear'' bm (Some 0) =
   texture P tex uv uv_da mip ''linear'' bm (Some 0)"
  unfolding texture_def Let_def
  by (simp add: str_in_mipmap filter_mode_dict_lookup)

lemma texture_lmn_level_zero:
  "is_Tensor uv_da \<Longrightarrow>
   texture P tex uv uv_da mip ''linear-mipmap-nearest'' bm (Some 0) =
   texture P tex uv uv_da mip ''linear'' bm (Some 0)"
  unfolding texture_def Let_def
  by (simp add: str_in_mipmap filter_mode_dict_lookup)

lemma texture_auto_level_zero:
  "is_Tensor uv_da \<Longrightarrow>
   texture P tex uv uv_da mip ''auto'' bm (Some 0) =
   texture P tex uv uv_da mip ''linear'' bm (Some 0)"
  unfolding texture_def Let_def
  by (cases uv_da) (simp_all add: str_in_mipmap filter_mode_dict_lookup)

text \<open>
  Claim C2, amended. For every call of \<^verbatim>\<open>texture\<close> with \<^verbatim>\<open>max_mip_level=0\<close>, a filter
  mode that is or resolves to \<^verbatim>\<open>'linear-mipmap-nearest'\<close> or \<^verbatim>\<open>'linear-mipmap-linear'\<close>,
  and \<^verbatim>\<open>uv_da\<close> a tensor, the call is the same call with \<^verbatim>\<open>filter_mode='linear'\<close>: once
  \<^verbatim>\<open>tex\<close> and \<^verbatim>\<open>uv\<close> are tensors and the boundary mode is known, the only plugin call
  is \<^verbatim>\<open>texture_fwd\<close> with filter enumeration 1 through \<^verbatim>\<open>_texture_func\<close>, and no mipmap
  stack is constructed.
\<close>

theorem texture_level_zero_is_linear:
  assumes "filter_mode = ''linear-mipmap-nearest'' \<or> filter_mode = ''linear-mipmap-linear''
           \<or> filter_mode = ''auto''"
    and "is_Tensor uv_da"
  shows "texture P tex uv uv_da mip filter_mode boundary_mode (Some 0)
           = texture P tex uv uv_da mip ''linear'' boundary_mode (Some 0)
     \<and> texture P tex uv uv_da mip filter_mode boundary_mode (Some 0) =
        (if is_Tensor tex \<and> is_Tensor uv then
           (case map_of boundary_mode_dict boundary_mode of
              None \<Rightarrow> raise (KeyError boundary_mode)
            | Some boundary_mode_enum \<Rightarrow>
                texture_func_forward P ''linear'' tex uv 1 boundary_mode_enum)
         else raise AssertionError)"
proof -
  have "texture P tex uv uv_da mip filter_mode boundary_mode (Some 0)
          = texture P tex uv uv_da mip ''linear'' boundary_mode (Some 0)"
    using assms texture_lml_level_zero texture_lmn_level_zero texture_auto_level_zero
    by blast
  then show ?thesis
    using texture_linear_level_zero by metis
qed

theorem texture_level_zero_is_linear_witness:
  "is_Tensor (PyTensor 3 :: (real, nat) pyobj)
   \<and> texture demo_plugin (PyTensor 1) (PyTensor 2) (PyTensor 3) PyNone
       ''linear-mipmap-nearest'' ''clamp'' (Some 0)
     = texture demo_plugin (PyTensor 1) (PyTensor 2) (PyTensor 3) PyNone ''linear'' ''clamp''
         (Some 0)
   \<and> texture demo_plugin (PyTensor 1) (PyTensor 2) (PyTensor 3) PyNone
       ''linear-mipmap-nearest'' ''clamp'' (Some 0)
     = texture_func_forward demo_plugin ''linear'' (PyTensor 1) (PyTensor 2) 1 2"
proof -
  have t: "is_Tensor (PyTensor 3 :: (real, nat) pyobj)"
    by simp
  have d: "''linear-mipmap-nearest'' = ''linear-mipmap-nearest''
           \<or> ''linear-mipmap-nearest'' = ''linear-mipmap-linear''
           \<or> ''linear-mipmap-nearest'' = ''auto''"
    by simp
  note w = texture_level_zero_is_linear
    [OF d t, of demo_plugin "PyTensor 1" "PyTensor 2" PyNone "''clamp''"]
  have "texture demo_plugin (PyTensor 1) (PyTensor 2) (PyTensor 3) PyNone
       ''linear-mipmap-nearest'' ''clamp'' (Some 0)
     = texture_func_forward demo_plugin ''linear'' (PyTensor 1) (PyTensor 2) 1 2"
    using conjunct2 [OF w] by (simp add: boundary_mode_dict_lookup)
  with t conjunct1 [OF w] show ?thesis
    by blast
qed

lemma texture_construct_mip_Inr:
  assumes "texture_construct_mip P tex max_mip_level (PyBool cube) = (cs, Inr pyramid)"
  shows "\<exists>m. pyramid = TextureMipWrapper m
           \<and> plugin_texture_construct_mip P tex
                (case max_mip_level of None \<Rightarrow> - 1 | Some k \<Rightarrow> k) cube = Inr m"
  using assms
  by (auto simp: texture_construct_mip_def run_defs Let_def split: if_splits sum.splits)

text \<open>
  Claim C3. When \<^verbatim>\<open>texture_construct_mip(tex, max_mip_level, cube_mode)\<close> returns a
  mipmap stack, with the cube flag of the sampling call's boundary mode, \<^verbatim>\<open>texture\<close>
  called with that stack as \<^verbatim>\<open>mip\<close> returns what \<^verbatim>\<open>texture\<close> returns on the same
  arguments without \<^verbatim>\<open>mip\<close>: the same output and saved context, or the same exception.
\<close>

theorem texture_precomputed_mip:
  assumes "texture_construct_mip P tex max_mip_level (PyBool (boundary_mode = ''cube''))
             = (cs, Inr pyramid)"
  shows "snd (texture P tex uv uv_da pyramid filter_mode boundary_mode max_mip_level)
           = snd (texture P tex uv uv_da PyNone filter_mode boundary_mode max_mip_level)"
proof -
  define fm1 where
    "fm1 = (if filter_mode = ''auto''
            then (if uv_da \<noteq> PyNone then ''linear-mipmap-linear'' else ''linear'')
            else filter_mode)"
  define l where "l = (case max_mip_level of None \<Rightarrow> - 1 | Some k \<Rightarrow> k)"
  define fm2 where
    "fm2 = (if l = 0 \<and> fm1 \<in> set [''linear-mipmap-nearest'', ''linear-mipmap-linear'']
            then ''linear'' else fm1)"
  note u = texture_unfold [OF fm1_def l_def fm2_def]
  from texture_construct_mip_Inr [OF assms] obtain m where
    p: "pyramid = TextureMipWrapper m" and
    c: "plugin_texture_construct_mip P tex l (boundary_mode = ''cube'') = Inr m"
    unfolding l_def by blast
  have n: "fm2 \<noteq> ''linear-mipmap-linear'' \<and> fm2 \<noteq> ''linear-mipmap-nearest''"
    if "\<not> str_in ''mipmap'' fm2"
    using that str_in_mipmap(1,2) by metis
  show ?thesis
  proof (cases "str_in ''mipmap'' fm2")
    case True
    then show ?thesis
      by (simp add: u p c run_defs texture_func_mip_forward_def texture_func_forward_def
            split: option.splits sum.splits)
  next
    case False
    then show ?thesis
      using n
      by (simp add: u p run_defs texture_func_forward_def split: option.splits sum.splits)
  qed
qed

theorem texture_precomputed_mip_witness:
  "texture_construct_mip demo_plugin (PyTensor 1) (Some 2) (PyBool (''wrap'' = ''cube''))
     = ([Call_texture_construct_mip (PyTensor 1) 2 False], Inr (TextureMipWrapper 3))
   \<and> snd (texture demo_plugin (PyTensor 1) (PyTensor 2) (PyTensor 3) (TextureMipWrapper 3)
       ''linear-mipmap-linear'' ''wrap'' (Some 2))
     = snd (texture demo_plugin (PyTensor 1) (PyTensor 2) (PyTensor 3) PyNone
       ''linear-mipmap-linear'' ''wrap'' (Some 2))"
proof -
  have h: "texture_construct_mip demo_plugin (PyTensor 1) (Some 2) (PyBool (''wrap'' = ''cube''))
     = ([Call_texture_construct_mip (PyTensor 1) 2 False], Inr (TextureMipWrapper 3))"
    by (simp add: texture_construct_mip_def demo_plugin_def run_defs)
  from texture_precomputed_mip [OF h] show ?thesis
    using h by simp
qed

text \<open>
  Claim C8. A call of \<^verbatim>\<open>texture\<close> with a mipmap filter mode, given as such or reached
  from \<^verbatim>\<open>'auto'\<close> because \<^verbatim>\<open>uv_da\<close> is not \<^verbatim>\<open>None\<close>, and with \<^verbatim>\<open>uv_da\<close> not a tensor,
  raises \<^verbatim>\<open>AssertionError\<close> without a single call into the plugin, whatever
  \<^verbatim>\<open>max_mip_level\<close> is, 0 included.
\<close>

theorem texture_mipmap_needs_uv_da:
  assumes "filter_mode = ''linear-mipmap-nearest'' \<or> filter_mode = ''linear-mipmap-linear''
           \<or> (filter_mode = ''auto'' \<and> uv_da \<noteq> PyNone)"
    and "\<not> is_Tensor uv_da"
  shows "texture P tex uv uv_da mip filter_mode boundary_mode max_mip_level
           = ([], Inl AssertionError)"
proof -
  define fm1 where
    "fm1 = (if filter_mode = ''auto''
            then (if uv_da \<noteq> PyNone then ''linear-mipmap-linear'' else ''linear'')
            else filter_mode)"
  define l where "l = (case max_mip_level of None \<Rightarrow> - 1 | Some k \<Rightarrow> k)"
  define fm2 where
    "fm2 = (if l = 0 \<and> fm1 \<in> set [''linear-mipmap-nearest'', ''linear-mipmap-linear'']
            then ''linear'' else fm1)"
  note u = texture_unfold [OF fm1_def l_def fm2_def]
  have "fm1 = ''linear-mipmap-nearest'' \<or> fm1 = ''linear-mipmap-linear''"
    using assms(1) unfolding fm1_def by auto
  then have "str_in ''mipmap'' fm1"
    using str_in_mipmap(1,2) by metis
  then show ?thesis
    using assms(2) by (simp add: u raise_def)
qed

theorem texture_mipmap_needs_uv_da_witness:
  "(PyOther :: (real, nat) pyobj) \<noteq> PyNone \<and> \<not> is_Tensor (PyOther :: (real, nat) pyobj)
   \<and> texture demo_plugin (PyTensor 1) (PyTensor 2) PyOther PyNone ''auto'' ''wrap'' (Some 0)
     = ([], Inl AssertionError)
   \<and> texture demo_plugin (PyTensor 1) (PyTensor 2) PyNone (TextureMipWrapper 5)
       ''linear-mipmap-nearest'' ''wrap'' None
     = ([], Inl AssertionError)"
  using texture_mipmap_needs_uv_da
      [of "''auto''" PyOther demo_plugin "PyTensor 1" "PyTensor 2" PyNone "''wrap''" "Some 0"]
    texture_mipmap_needs_uv_da
      [of "''linear-mipmap-nearest''" PyNone demo_plugin "PyTensor 1" "PyTensor 2"
          "TextureMipWrapper 5" "''wrap''" None]
  by simp

text \<open>
  Claim C10. In a call of \<^verbatim>\<open>texture\<close> with a mipmap filter mode and a mipmap stack
  supplied by the caller, \<^verbatim>\<open>max_mip_level\<close> other than 0 does not reach the sampling
  call: a value that passes the check \<^verbatim>\<open>max_mip_level >= 0\<close> gives the same plugin
  calls and the same result as \<^verbatim>\<open>max_mip_level=None\<close> (a negative value is rejected by
  that check before anything is sampled).
\<close>

theorem texture_max_mip_level_unused:
  assumes "filter_mode = ''linear-mipmap-nearest'' \<or> filter_mode = ''linear-mipmap-linear''
           \<or> (filter_mode = ''auto'' \<and> uv_da \<noteq> PyNone)"
    and "k \<noteq> 0"
  shows "texture P tex uv uv_da (TextureMipWrapper m) filter_mode boundary_mode (Some k) =
          (if k < 0 then raise AssertionError
           else texture P tex uv uv_da (TextureMipWrapper m) filter_mode boundary_mode None)"
  using assms by (auto simp: texture_def Let_def)

theorem texture_max_mip_level_unused_witness:
  "(4::int) \<noteq> 0
   \<and> texture demo_plugin (PyTensor 1) (PyTensor 2) (PyTensor 3) (TextureMipWrapper 5)
       ''linear-mipmap-nearest'' ''cube'' (Some 4)
     = texture demo_plugin (PyTensor 1) (PyTensor 2) (PyTensor 3) (TextureMipWrapper 5)
       ''linear-mipmap-nearest'' ''cube'' None
   \<and> texture demo_plugin (PyTensor 1) (PyTensor 2) (PyTensor 3) (TextureMipWrapper 5)
       ''linear-mipmap-nearest'' ''cube'' None
     = ([Call_texture_fwd_mip (PyTensor 1) (PyTensor 2) (PyTensor 3) (TextureMipWrapper 5) 2 0],
        Inr (Texture_func_mip
          \<lparr>mip_saved_tex = PyTensor 1, mip_saved_uv = PyTensor 2, mip_saved_uv_da = PyTensor 3,
           mip_saved_filter_mode = ''linear-mipmap-nearest'',
           mip_saved_mip = TextureMipWrapper 5,
           mip_saved_filter_mode_enum = 2, mip_saved_boundary_mode_enum = 0\<rparr> 22))"
proof -
  have e: "texture demo_plugin (PyTensor 1) (PyTensor 2) (PyTensor 3) (TextureMipWrapper 5)
       ''linear-mipmap-nearest'' ''cube'' None
     = ([Call_texture_fwd_mip (PyTensor 1) (PyTensor 2) (PyTensor 3) (TextureMipWrapper 5) 2 0],
        Inr (Texture_func_mip
          \<lparr>mip_saved_tex = PyTensor 1, mip_saved_uv = PyTensor 2, mip_saved_uv_da = PyTensor 3,
           mip_saved_filter_mode = ''linear-mipmap-nearest'',
           mip_saved_mip = TextureMipWrapper 5,
           mip_saved_filter_mode_enum = 2, mip_saved_boundary_mode_enum = 0\<rparr> 22))"
    by (simp add: texture_def demo_plugin_def run_defs filter_mode_dict_def
          boundary_mode_dict_def texture_func_mip_forward_def)
  show ?thesis
    using texture_max_mip_level_unused
      [of "''linear-mipmap-nearest''" "PyTensor 3" 4 demo_plugin "PyTensor 1" "PyTensor 2" 5
          "''cube''"] e
    by simp
qed

section \<open>Properties of the OpenGL context and of rasterize\<close>







text \<open>
  Claim C7. Whenever the backward pass of rasterize returns, it returns a gradient for
  \<^verbatim>\<open>pos\<close> alone, the one computed by the plugin; the entries for \<^verbatim>\<open>glctx\<close>, \<^verbatim>\<open>tri\<close>,
  \<^verbatim>\<open>resolution\<close>, \<^verbatim>\<open>ranges\<close> and \<^verbatim>\<open>grad_db\<close> are \<^verbatim>\<open>None\<close>.
\<close>

theorem rasterize_backward_pos_only:
  assumes "rasterize_func_backward P ctx dy ddb = (cs, Inr grads)"
  shows "\<exists>g_pos. grads = [None, Some g_pos, None, None, None, None]
           \<and> (if saved_grad_db ctx
              then plugin_rasterize_grad_db P (saved_pos ctx) (saved_tri ctx)
                     (PyTensor (saved_out ctx)) dy ddb = Inr g_pos
              else plugin_rasterize_grad P (saved_pos ctx) (saved_tri ctx)
                     (PyTensor (saved_out ctx)) dy = Inr g_pos)"
  using assms
  by (auto simp: rasterize_func_backward_def run_defs Let_def split: if_splits sum.splits)

theorem rasterize_backward_pos_only_witness:
  "rasterize_func_backward demo_plugin
       \<lparr>saved_pos = PyTensor 1, saved_tri = PyTensor 2, saved_out = 7, saved_grad_db = True\<rparr>
       (PyTensor 5) (PyTensor 6)
     = ([Call_rasterize_grad_db (PyTensor 1) (PyTensor 2) (PyTensor 7) (PyTensor 5) (PyTensor 6)],
        Inr [None, Some 10, None, None, None, None])
   \<and> (\<exists>g_pos. [None, Some 10, None, None, None, None]
                 = [None, Some g_pos, None, None, None, (None :: real option)])"
proof -
  have h: "rasterize_func_backward demo_plugin
       \<lparr>saved_pos = PyTensor 1, saved_tri = PyTensor 2, saved_out = 7, saved_grad_db = True\<rparr>
       (PyTensor 5) (PyTensor 6)
     = ([Call_rasterize_grad_db (PyTensor 1) (PyTensor 2) (PyTensor 7) (PyTensor 5) (PyTensor 6)],
        Inr [None, Some 10, None, None, None, None])"
    by (simp add: rasterize_func_backward_def demo_plugin_def run_defs)
  from rasterize_backward_pos_only [OF h] h show ?thesis
    by blast
qed

section \<open>Properties of interpolate\<close>


lemma interpolate_example:
  "interpolate demo_plugin (PyTensor 1) (PyTensor 2) (PyTensor 3) (PyTensor 4) (DiffSeq [0, 2])
     = ([Call_interpolate_fwd_da (PyTensor 1) (PyTensor 2) (PyTensor 3) (PyTensor 4) 0 [0, 2]],
        Inr (Interpolate_func_da
          \<lparr>da_saved_attr = PyTensor 1, da_saved_rast = PyTensor 2, da_saved_tri = PyTensor 3,
           da_saved_rast_db = PyTensor 4, da_saved_diff_attrs_all = 0,
           da_saved_diff_attrs_list = [0, 2]\<rparr> 13 14))"
  "interpolate demo_plugin (PyTensor 1) (PyTensor 2) (PyTensor 3) PyNone DiffAll
     = ([], Inl AssertionError)"
  "interpolate demo_plugin (PyTensor 1) (PyTensor 2) (PyTensor 3) (PyTensor 4) DiffAll
     = ([Call_interpolate_fwd_da (PyTensor 1) (PyTensor 2) (PyTensor 3) (PyTensor 4) 1 []],
        Inr (Interpolate_func_da
          \<lparr>da_saved_attr = PyTensor 1, da_saved_rast = PyTensor 2, da_saved_tri = PyTensor 3,
           da_saved_rast_db = PyTensor 4, da_saved_diff_attrs_all = 1,
           da_saved_diff_attrs_list = []\<rparr> 13 14))"
  "interpolate demo_plugin (PyTensor 1) (PyTensor 2) (PyTensor 3) (PyTensor 4) (DiffSeq [])
     = ([Call_interpolate_fwd (PyTensor 1) (PyTensor 2) (PyTensor 3)],
        Inr (Interpolate_func
          \<lparr>saved_attr = PyTensor 1, saved_rast = PyTensor 2, saved_attr_tri = PyTensor 3\<rparr>
          11 12))"
  by (simp_all add: interpolate_def interpolate_func_da_forward_def
       interpolate_func_forward_def demo_plugin_def run_defs Let_def)



section \<open>Properties of antialias\<close>

lemma antialias_saved:
  assumes "antialias P color rast pos tri topology_hash boost = (cs, Inr (ctx, out))"
  shows "saved_color ctx = color \<and> saved_aa_rast ctx = rast \<and> saved_aa_pos ctx = pos
     \<and> saved_aa_tri ctx = tri \<and> saved_pos_gradient_boost ctx = boost"
  using assms
  by (auto simp: antialias_def antialias_func_forward_def run_defs
      split: if_splits sum.splits prod.splits)

lemma antialias_example:
  "antialias demo_plugin (PyTensor 1) (PyTensor 2) (PyTensor 3) (PyTensor 4) PyNone 2
     = ([Call_antialias_construct_topology_hash (PyTensor 4),
         Call_antialias_fwd (PyTensor 1) (PyTensor 2) (PyTensor 3) (PyTensor 4)
           (TopologyHashWrapper 30)],
        Inr (\<lparr>saved_color = PyTensor 1, saved_aa_rast = PyTensor 2, saved_aa_pos = PyTensor 3,
              saved_aa_tri = PyTensor 4, saved_pos_gradient_boost = 2,
              saved_work_buffer = 32\<rparr>, 31))"
  by (simp add: antialias_def antialias_func_forward_def demo_plugin_def run_defs)

text \<open>
  Claim C6. In the backward pass of an \<^verbatim>\<open>antialias\<close> call, when the plugin returns the
  gradients \<^verbatim>\<open>g_color\<close> and \<^verbatim>\<open>g_pos\<close>, the entry returned for \<^verbatim>\<open>pos\<close> is \<^verbatim>\<open>g_pos\<close>
  times \<^verbatim>\<open>pos_gradient_boost\<close>, and \<^verbatim>\<open>g_pos\<close> itself when \<^verbatim>\<open>pos_gradient_boost\<close> is 1.0;
  the entry for \<^verbatim>\<open>color\<close> is \<^verbatim>\<open>g_color\<close>, and the entries for \<^verbatim>\<open>rast\<close>, \<^verbatim>\<open>tri\<close>,
  \<^verbatim>\<open>topology_hash\<close> and \<^verbatim>\<open>pos_gradient_boost\<close> are \<^verbatim>\<open>None\<close>.
\<close>

theorem antialias_backward_boost:
  assumes "antialias P color rast pos tri topology_hash pos_gradient_boost
             = (cs, Inr (ctx, out))"
    and "plugin_antialias_grad P color rast pos tri dy (saved_work_buffer ctx)
             = Inr (g_color, g_pos)"
  shows "antialias_func_backward P T ctx dy =
           ([Call_antialias_grad color rast pos tri dy (saved_work_buffer ctx)],
            Inr [Some g_color, None,
                 Some (if pos_gradient_boost = 1 then g_pos
                       else torch_mul T g_pos pos_gradient_boost),
                 None, None, None])"
  using assms(2) antialias_saved [OF assms(1)]
  by (simp add: antialias_func_backward_def run_defs Let_def)

theorem antialias_backward_boost_witness:
  "antialias demo_plugin (PyTensor 1) (PyTensor 2) (PyTensor 3) (PyTensor 4) PyNone 2
     = ([Call_antialias_construct_topology_hash (PyTensor 4),
         Call_antialias_fwd (PyTensor 1) (PyTensor 2) (PyTensor 3) (PyTensor 4)
           (TopologyHashWrapper 30)],
        Inr (\<lparr>saved_color = PyTensor 1, saved_aa_rast = PyTensor 2, saved_aa_pos = PyTensor 3,
              saved_aa_tri = PyTensor 4, saved_pos_gradient_boost = 2,
              saved_work_buffer = 32\<rparr>, 31))
   \<and> plugin_antialias_grad demo_plugin (PyTensor 1) (PyTensor 2) (PyTensor 3) (PyTensor 4)
       (PyTensor 5) 32 = Inr (33, 34)
   \<and> antialias_func_backward demo_plugin demo_torch
       \<lparr>saved_color = PyTensor 1, saved_aa_rast = PyTensor 2, saved_aa_pos = PyTensor 3,
        saved_aa_tri = PyTensor 4, saved_pos_gradient_boost = 2, saved_work_buffer = 32\<rparr>
       (PyTensor 5)
     = ([Call_antialias_grad (PyTensor 1) (PyTensor 2) (PyTensor 3) (PyTensor 4) (PyTensor 5) 32],
        Inr [Some 33, None, Some 68, None, None, None])"
proof -
  have g: "plugin_antialias_grad demo_plugin (PyTensor 1) (PyTensor 2) (PyTensor 3) (PyTensor 4)
       (PyTensor 5)
       (saved_work_buffer
          \<lparr>saved_color = PyTensor 1, saved_aa_rast = PyTensor 2, saved_aa_pos = PyTensor 3,
           saved_aa_tri = PyTensor 4, saved_pos_gradient_boost = 2, saved_work_buffer = 32\<rparr>)
       = Inr (33, 34)"
    by (simp add: demo_plugin_def)
  have b: "antialias_func_backward demo_plugin demo_torch
       \<lparr>saved_color = PyTensor 1, saved_aa_rast = PyTensor 2, saved_aa_pos = PyTensor 3,
        saved_aa_tri = PyTensor 4, saved_pos_gradient_boost = 2, saved_work_buffer = 32\<rparr>
       (PyTensor 5)
     = ([Call_antialias_grad (PyTensor 1) (PyTensor 2) (PyTensor 3) (PyTensor 4) (PyTensor 5) 32],
        Inr [Some 33, None, Some 68, None, None, None])"
    using antialias_backward_boost [OF antialias_example g, of demo_torch]
    by (simp add: demo_torch_def)
  have g': "plugin_antialias_grad demo_plugin (PyTensor 1) (PyTensor 2) (PyTensor 3)
       (PyTensor 4) (PyTensor 5) 32 = Inr (33, 34)"
    using g by simp
  from antialias_example g' b show ?thesis
    by blast
qed

end
